theory Spec2Isabelle
  imports Complex_Main "HOL-Library.AList"
begin

section \<open>JavaScript values read and written by the annotation migration\<close>

text \<open>
  The migration in \<^verbatim>\<open>public/app/plugins/datasource/influxdb/migrations.ts\<close> takes
  \<^verbatim>\<open>json: any\<close>, so its input is an arbitrary JavaScript value. The values modelled are
  the ones a persisted dashboard document can hold, and \<^verbatim>\<open>undefined\<close>: primitives, arrays
  and plain objects. An object is its list of own properties in insertion order; an array
  is its elements together with any named properties assigned to it. Functions, symbols,
  accessors, proxies and frozen objects are outside the model.

  A number is kept as a real (or one of the three special values); the migration never
  computes with a number, it only tests whether it is truthy and copies it.
\<close>

datatype jsnum = Finite real | NaN | PosInfinity | NegInfinity

datatype jsval =
    JUndefined
  | JNull
  | JBool bool
  | JNum jsnum
  | JStr string
  | JArr "jsval list" "(string \<times> jsval) list"
  | JObj "(string \<times> jsval) list"

text \<open>The only exception the code can raise is a \<^verbatim>\<open>TypeError\<close>.\<close>

datatype error = TypeError

text \<open>Sequencing of evaluations that may throw: the first error is the result.\<close>

definition bind_res :: "error + 'a \<Rightarrow> ('a \<Rightarrow> error + 'b) \<Rightarrow> error + 'b" where
  "bind_res m f = (case m of Inl e \<Rightarrow> Inl e | Inr x \<Rightarrow> f x)"

text \<open>
  Truthiness (\<^verbatim>\<open>ToBoolean\<close>): \<^verbatim>\<open>undefined\<close>, \<^verbatim>\<open>null\<close>, \<^verbatim>\<open>false\<close>, \<^verbatim>\<open>0\<close>, \<^verbatim>\<open>NaN\<close> and
  \<^verbatim>\<open>""\<close> are falsy, everything else (every object and array, also an empty one) is
  truthy.
\<close>

fun truthy :: "jsval \<Rightarrow> bool" where
  "truthy JUndefined = False"
| "truthy JNull = False"
| "truthy (JBool b) = b"
| "truthy (JNum (Finite x)) = (x \<noteq> 0)"
| "truthy (JNum NaN) = False"
| "truthy (JNum PosInfinity) = True"
| "truthy (JNum NegInfinity) = True"
| "truthy (JStr s) = (s \<noteq> [])"
| "truthy (JArr xs ps) = True"
| "truthy (JObj ps) = True"

fun nullish :: "jsval \<Rightarrow> bool" where
  "nullish JUndefined = True"
| "nullish JNull = True"
| "nullish v = False"

text \<open>The operator \<^verbatim>\<open>a ?? b\<close>: \<^verbatim>\<open>b\<close> when \<^verbatim>\<open>a\<close> is \<^verbatim>\<open>undefined\<close> or \<^verbatim>\<open>null\<close>, else \<^verbatim>\<open>a\<close>.\<close>

definition nullish_or :: "jsval \<Rightarrow> jsval \<Rightarrow> jsval" where
  "nullish_or a b = (if nullish a then b else a)"

text \<open>Looking a key up in a property list; a missing key reads as \<^verbatim>\<open>undefined\<close>.\<close>

definition lookup :: "(string \<times> jsval) list \<Rightarrow> string \<Rightarrow> jsval" where
  "lookup ps k = (case map_of ps k of None \<Rightarrow> JUndefined | Some v \<Rightarrow> v)"

text \<open>
  The value of \<^verbatim>\<open>v.k\<close> for a \<^verbatim>\<open>v\<close> that is neither \<^verbatim>\<open>undefined\<close> nor \<^verbatim>\<open>null\<close>. The keys
  the migration reads (\<^verbatim>\<open>target\<close>, \<^verbatim>\<open>query\<close>, \<^verbatim>\<open>tagsColumn\<close>, \<^verbatim>\<open>textColumn\<close>,
  \<^verbatim>\<open>timeEndColumn\<close>, \<^verbatim>\<open>titleColumn\<close>, \<^verbatim>\<open>name\<close>, \<^verbatim>\<open>limit\<close>, \<^verbatim>\<open>matchAny\<close>, \<^verbatim>\<open>tags\<close>,
  \<^verbatim>\<open>type\<close>) are defined by no built-in prototype, so on a boolean, a number or a string
  they read as \<^verbatim>\<open>undefined\<close>, and on an array or object they are own properties or
  \<^verbatim>\<open>undefined\<close>. Built-in properties such as \<^verbatim>\<open>length\<close> are not modelled.
\<close>

fun own_prop :: "jsval \<Rightarrow> string \<Rightarrow> jsval" where
  "own_prop (JObj ps) k = lookup ps k"
| "own_prop (JArr xs ps) k = lookup ps k"
| "own_prop v k = JUndefined"

text \<open>\<^verbatim>\<open>v.k\<close>: reading a property of \<^verbatim>\<open>undefined\<close> or \<^verbatim>\<open>null\<close> throws.\<close>

definition get_prop :: "jsval \<Rightarrow> string \<Rightarrow> error + jsval" where
  "get_prop v k = (if nullish v then Inl TypeError else Inr (own_prop v k))"

text \<open>\<^verbatim>\<open>v?.k\<close>: \<^verbatim>\<open>undefined\<close> when \<^verbatim>\<open>v\<close> is \<^verbatim>\<open>undefined\<close> or \<^verbatim>\<open>null\<close>, else \<^verbatim>\<open>v.k\<close>.\<close>

definition get_opt :: "jsval \<Rightarrow> string \<Rightarrow> error + jsval" where
  "get_opt v k = (if nullish v then Inr JUndefined else get_prop v k)"

text \<open>
  \<^verbatim>\<open>v.k = x\<close> in strict mode (the file is an ES module), returning the updated \<^verbatim>\<open>v\<close>: an
  existing property keeps its place and gets the new value, a new one is added last.
  Assigning to a property of \<^verbatim>\<open>undefined\<close>, \<^verbatim>\<open>null\<close> or a primitive throws.
\<close>

fun set_prop :: "jsval \<Rightarrow> string \<Rightarrow> jsval \<Rightarrow> error + jsval" where
  "set_prop (JObj ps) k x = Inr (JObj (AList.update k x ps))"
| "set_prop (JArr xs ps) k x = Inr (JArr xs (AList.update k x ps))"
| "set_prop v k x = Inl TypeError"

section \<open>The migration\<close>

text \<open>
  \<^verbatim>\<open>json.k ?? ''\<close>, the expression of each flat field of \<^verbatim>\<open>migrateLegacyAnnotation\<close>.
\<close>

definition flat_field :: "jsval \<Rightarrow> string \<Rightarrow> error + jsval" where
  "flat_field json k = bind_res (get_prop json k) (\<lambda>v. Inr (nullish_or v (JStr '''')))"

text \<open>
  \<^verbatim>\<open>json.target ? json.target.k : d\<close>, the expression of each of the four target fields of
  \<^verbatim>\<open>migrateLegacyAnnotation\<close>.
\<close>

definition target_field :: "jsval \<Rightarrow> string \<Rightarrow> jsval \<Rightarrow> error + jsval" where
  "target_field json k d =
     bind_res (get_prop json ''target'') (\<lambda>t.
       if truthy t then bind_res (get_prop json ''target'') (\<lambda>t'. get_prop t' k)
       else Inr d)"

text \<open>
  \<^verbatim>\<open>migrateLegacyAnnotation\<close>: the object literal, its properties evaluated in source
  order.
\<close>

definition migrateLegacyAnnotation :: "jsval \<Rightarrow> error + jsval" where
  "migrateLegacyAnnotation json =
     bind_res (flat_field json ''query'') (\<lambda>query.
     bind_res (flat_field json ''tagsColumn'') (\<lambda>tagsColumn.
     bind_res (flat_field json ''textColumn'') (\<lambda>textColumn.
     bind_res (flat_field json ''timeEndColumn'') (\<lambda>timeEndColumn.
     bind_res (flat_field json ''titleColumn'') (\<lambda>titleColumn.
     bind_res (flat_field json ''name'') (\<lambda>name.
     bind_res (target_field json ''limit'' (JNum (Finite 0))) (\<lambda>limit.
     bind_res (target_field json ''matchAny'' (JBool False)) (\<lambda>matchAny.
     bind_res (target_field json ''tags'' (JArr [] [])) (\<lambda>tags.
     bind_res (target_field json ''type'' (JStr '''')) (\<lambda>type.
       Inr (JObj
         [(''query'', query),
          (''queryType'', JStr ''tags''),
          (''fromAnnotations'', JBool True),
          (''tagsColumn'', tagsColumn),
          (''textColumn'', textColumn),
          (''timeEndColumn'', timeEndColumn),
          (''titleColumn'', titleColumn),
          (''name'', name),
          (''limit'', limit),
          (''matchAny'', matchAny),
          (''tags'', tags),
          (''type'', type)])))))))))))"

text \<open>
  \<^verbatim>\<open>prepareAnnotation\<close>:
  \<^verbatim>\<open>json.target = json.target && !json.target?.query ? migrateLegacyAnnotation(json) : json.target\<close>
  and then \<^verbatim>\<open>return json\<close>. The condition of the conditional is the whole
  \<^verbatim>\<open>&&\<close> expression: it is \<^verbatim>\<open>json.target\<close> itself when that is falsy, and the negated
  truthiness of \<^verbatim>\<open>json.target?.query\<close> otherwise. The mutated \<^verbatim>\<open>json\<close> is returned as the
  updated value.
\<close>

definition prepareAnnotation :: "jsval \<Rightarrow> error + jsval" where
  "prepareAnnotation json =
     bind_res
       (bind_res (get_prop json ''target'') (\<lambda>t.
          if truthy t
          then bind_res (get_prop json ''target'') (\<lambda>t'.
                 bind_res (get_opt t' ''query'') (\<lambda>q. Inr (JBool (\<not> truthy q))))
          else Inr t))
       (\<lambda>c.
     bind_res
       (if truthy c then migrateLegacyAnnotation json else get_prop json ''target'')
       (\<lambda>v.
     set_prop json ''target'' v))"

section \<open>Evaluation lemmas\<close>

text \<open>
  Closed forms of the reads and of the two functions on a \<^verbatim>\<open>json\<close> that is neither
  \<^verbatim>\<open>undefined\<close> nor \<^verbatim>\<open>null\<close>, and the facts about property lists that the properties
  below need.
\<close>

lemma truthy_not_nullish: "truthy v \<Longrightarrow> \<not> nullish v"
  by (cases v) simp_all

lemma bind_res_Inr [simp]: "bind_res (Inr x) f = f x"
  by (simp add: bind_res_def)

lemma bind_res_Inl [simp]: "bind_res (Inl e) f = Inl e"
  by (simp add: bind_res_def)

lemma get_prop_defined: "\<not> nullish v \<Longrightarrow> get_prop v k = Inr (own_prop v k)"
  by (simp add: get_prop_def)

lemma get_opt_own_prop: "get_opt v k = Inr (own_prop v k)"
  by (cases v) (simp_all add: get_opt_def get_prop_def)

lemma flat_field_defined:
  "\<not> nullish json \<Longrightarrow> flat_field json k = Inr (nullish_or (own_prop json k) (JStr ''''))"
  by (simp add: flat_field_def get_prop_defined)

lemma target_field_truthy:
  "\<not> nullish json \<Longrightarrow> truthy (own_prop json ''target'') \<Longrightarrow>
   target_field json k d = Inr (own_prop (own_prop json ''target'') k)"
  by (simp add: target_field_def get_prop_defined truthy_not_nullish)

lemma target_field_falsy:
  "\<not> nullish json \<Longrightarrow> \<not> truthy (own_prop json ''target'') \<Longrightarrow> target_field json k d = Inr d"
  by (simp add: target_field_def get_prop_defined)

lemma migrateLegacyAnnotation_truthy:
  assumes "\<not> nullish json" and "truthy (own_prop json ''target'')"
  shows "migrateLegacyAnnotation json =
    Inr (JObj
      [(''query'', nullish_or (own_prop json ''query'') (JStr '''')),
       (''queryType'', JStr ''tags''),
       (''fromAnnotations'', JBool True),
       (''tagsColumn'', nullish_or (own_prop json ''tagsColumn'') (JStr '''')),
       (''textColumn'', nullish_or (own_prop json ''textColumn'') (JStr '''')),
       (''timeEndColumn'', nullish_or (own_prop json ''timeEndColumn'') (JStr '''')),
       (''titleColumn'', nullish_or (own_prop json ''titleColumn'') (JStr '''')),
       (''name'', nullish_or (own_prop json ''name'') (JStr '''')),
       (''limit'', own_prop (own_prop json ''target'') ''limit''),
       (''matchAny'', own_prop (own_prop json ''target'') ''matchAny''),
       (''tags'', own_prop (own_prop json ''target'') ''tags''),
       (''type'', own_prop (own_prop json ''target'') ''type'')])"
  using assms
  by (simp add: migrateLegacyAnnotation_def flat_field_defined target_field_truthy)

lemma migrateLegacyAnnotation_falsy:
  assumes "\<not> nullish json" and "\<not> truthy (own_prop json ''target'')"
  shows "migrateLegacyAnnotation json =
    Inr (JObj
      [(''query'', nullish_or (own_prop json ''query'') (JStr '''')),
       (''queryType'', JStr ''tags''),
       (''fromAnnotations'', JBool True),
       (''tagsColumn'', nullish_or (own_prop json ''tagsColumn'') (JStr '''')),
       (''textColumn'', nullish_or (own_prop json ''textColumn'') (JStr '''')),
       (''timeEndColumn'', nullish_or (own_prop json ''timeEndColumn'') (JStr '''')),
       (''titleColumn'', nullish_or (own_prop json ''titleColumn'') (JStr '''')),
       (''name'', nullish_or (own_prop json ''name'') (JStr '''')),
       (''limit'', JNum (Finite 0)),
       (''matchAny'', JBool False),
       (''tags'', JArr [] []),
       (''type'', JStr '''')])"
  using assms
  by (simp add: migrateLegacyAnnotation_def flat_field_defined target_field_falsy)

lemma prepareAnnotation_cond:
  assumes "\<not> nullish json"
  shows "prepareAnnotation json =
    (if truthy (own_prop json ''target'') \<and> \<not> truthy (own_prop (own_prop json ''target'') ''query'')
     then bind_res (migrateLegacyAnnotation json) (set_prop json ''target'')
     else set_prop json ''target'' (own_prop json ''target''))"
  using assms
  by (simp add: prepareAnnotation_def get_prop_defined get_opt_own_prop)

lemma prepareAnnotation_nullish: "nullish json \<Longrightarrow> prepareAnnotation json = Inl TypeError"
  by (simp add: prepareAnnotation_def get_prop_def)

lemma lookup_update_same: "lookup (AList.update k v ps) k = v"
  by (simp add: lookup_def update_conv')

lemma lookup_update_other: "k' \<noteq> k \<Longrightarrow> lookup (AList.update k v ps) k' = lookup ps k'"
  by (simp add: lookup_def update_conv')

lemma filter_update_other:
  "filter (\<lambda>p. fst p \<noteq> k) (AList.update k v ps) = filter (\<lambda>p. fst p \<noteq> k) ps"
  by (induction ps) auto

lemma update_present: "map_of ps k = Some v \<Longrightarrow> AList.update k v ps = ps"
  by (induction ps) (auto split: if_splits)

lemma update_twice: "AList.update k v (AList.update k w ps) = AList.update k v ps"
  by (induction ps) auto


lemma prepareAnnotation_migrates:
  assumes "\<not> nullish json"
    and "truthy (own_prop json ''target'')"
    and "\<not> truthy (own_prop (own_prop json ''target'') ''query'')"
  shows "prepareAnnotation json =
    set_prop json ''target''
      (JObj
        [(''query'', nullish_or (own_prop json ''query'') (JStr '''')),
         (''queryType'', JStr ''tags''),
         (''fromAnnotations'', JBool True),
         (''tagsColumn'', nullish_or (own_prop json ''tagsColumn'') (JStr '''')),
         (''textColumn'', nullish_or (own_prop json ''textColumn'') (JStr '''')),
         (''timeEndColumn'', nullish_or (own_prop json ''timeEndColumn'') (JStr '''')),
         (''titleColumn'', nullish_or (own_prop json ''titleColumn'') (JStr '''')),
         (''name'', nullish_or (own_prop json ''name'') (JStr '''')),
         (''limit'', own_prop (own_prop json ''target'') ''limit''),
         (''matchAny'', own_prop (own_prop json ''target'') ''matchAny''),
         (''tags'', own_prop (own_prop json ''target'') ''tags''),
         (''type'', own_prop (own_prop json ''target'') ''type'')])"
  using assms
  by (simp add: prepareAnnotation_cond migrateLegacyAnnotation_truthy)

section \<open>Properties of \<open>prepareAnnotation\<close>\<close>

subsection \<open>The decision rule\<close>

text \<open>
  C1, as the specification states it: \<^verbatim>\<open>prepareAnnotation\<close> leaves \<^verbatim>\<open>record.target\<close> alone
  if and only if it is present and its \<^verbatim>\<open>query\<close> is truthy, and in every other case, an
  absent or \<^verbatim>\<open>null\<close> target included, replaces it with the record built by
  \<^verbatim>\<open>migrateLegacyAnnotation\<close>. The code does not do this for an absent target: on the
  empty record \<^verbatim>\<open>{}\<close> the guard \<^verbatim>\<open>json.target && ...\<close> is falsy, nothing is built, and
  \<^verbatim>\<open>target\<close> is assigned \<^verbatim>\<open>undefined\<close>.
\<close>

theorem prepareAnnotation_absent_target_counterexample:
  "prepareAnnotation (JObj []) = Inr (JObj [(''target'', JUndefined)]) \<and>
   prepareAnnotation (JObj []) \<noteq>
     bind_res (migrateLegacyAnnotation (JObj [])) (set_prop (JObj []) ''target'')"
  by (simp add: prepareAnnotation_cond migrateLegacyAnnotation_falsy lookup_def)

text \<open>
  C1, amended: \<^verbatim>\<open>prepareAnnotation\<close> migrates, replacing \<^verbatim>\<open>record.target\<close> with the
  record built by \<^verbatim>\<open>migrateLegacyAnnotation\<close>, if and only if \<^verbatim>\<open>record.target\<close> is truthy
  and its \<^verbatim>\<open>query\<close> is falsy. In every other case, a truthy \<^verbatim>\<open>target.query\<close> as well as an
  absent, \<^verbatim>\<open>null\<close> or otherwise falsy target, no migration happens and \<^verbatim>\<open>target\<close> is
  assigned the value it already had (\<^verbatim>\<open>undefined\<close> when it was absent).
\<close>

theorem prepareAnnotation_decision:
  "prepareAnnotation (JObj ps) =
     (if truthy (lookup ps ''target'') \<and> \<not> truthy (own_prop (lookup ps ''target'') ''query'')
      then bind_res (migrateLegacyAnnotation (JObj ps)) (set_prop (JObj ps) ''target'')
      else Inr (JObj (AList.update ''target'' (lookup ps ''target'') ps)))"
  by (simp add: prepareAnnotation_cond)

theorem prepareAnnotation_decision_witness:
  "prepareAnnotation (JObj [(''target'', JObj [(''limit'', JNum (Finite 5))])]) =
     bind_res (migrateLegacyAnnotation (JObj [(''target'', JObj [(''limit'', JNum (Finite 5))])]))
       (set_prop (JObj [(''target'', JObj [(''limit'', JNum (Finite 5))])]) ''target'') \<and>
   prepareAnnotation (JObj [(''target'', JNull)]) = Inr (JObj [(''target'', JNull)]) \<and>
   prepareAnnotation (JObj [(''target'', JObj [(''query'', JStr ''up'')])]) =
     Inr (JObj [(''target'', JObj [(''query'', JStr ''up'')])])"
  using prepareAnnotation_decision [of "[(''target'', JObj [(''limit'', JNum (Finite 5))])]"]
    prepareAnnotation_decision [of "[(''target'', JNull)]"]
    prepareAnnotation_decision [of "[(''target'', JObj [(''query'', JStr ''up'')])]"]
  by (simp add: lookup_def)

subsection \<open>A record without a target\<close>

text \<open>
  C2, as the specification states it: for a record whose \<^verbatim>\<open>target\<close> is absent or \<^verbatim>\<open>null\<close>
  the returned \<^verbatim>\<open>target\<close> is a fully defaulted record, with the top-level flat fields
  copied in, as in Scenario A. On the input of Scenario A,
  \<^verbatim>\<open>{ query: "foo", tagsColumn: "t" }\<close>, the code returns the record with \<^verbatim>\<open>target\<close>
  \<^verbatim>\<open>undefined\<close>, not with the record that the scenario expects.
\<close>

theorem prepareAnnotation_scenario_A_counterexample:
  "prepareAnnotation (JObj [(''query'', JStr ''foo''), (''tagsColumn'', JStr ''t'')]) =
     Inr (JObj [(''query'', JStr ''foo''), (''tagsColumn'', JStr ''t''), (''target'', JUndefined)]) \<and>
   prepareAnnotation (JObj [(''query'', JStr ''foo''), (''tagsColumn'', JStr ''t'')]) \<noteq>
     Inr (JObj [(''query'', JStr ''foo''), (''tagsColumn'', JStr ''t''),
       (''target'', JObj
         [(''query'', JStr ''foo''),
          (''queryType'', JStr ''tags''),
          (''fromAnnotations'', JBool True),
          (''tagsColumn'', JStr ''t''),
          (''textColumn'', JStr ''''),
          (''timeEndColumn'', JStr ''''),
          (''titleColumn'', JStr ''''),
          (''name'', JStr ''''),
          (''limit'', JNum (Finite 0)),
          (''matchAny'', JBool False),
          (''tags'', JArr [] []),
          (''type'', JStr '''')])])"
  by (simp add: prepareAnnotation_cond lookup_def)

text \<open>
  C2, amended: for a record whose \<^verbatim>\<open>target\<close> is absent (\<^verbatim>\<open>undefined\<close>) or \<^verbatim>\<open>null\<close>,
  \<^verbatim>\<open>prepareAnnotation\<close> builds nothing: the returned record has \<^verbatim>\<open>target\<close> equal to the
  \<^verbatim>\<open>undefined\<close> or \<^verbatim>\<open>null\<close> it had, and is otherwise as given.
\<close>

theorem prepareAnnotation_nullish_target:
  "nullish (lookup ps ''target'') \<Longrightarrow>
   prepareAnnotation (JObj ps) = Inr (JObj (AList.update ''target'' (lookup ps ''target'') ps))"
  using truthy_not_nullish [of "lookup ps ''target''"]
  by (auto simp add: prepareAnnotation_cond)

theorem prepareAnnotation_nullish_target_witness:
  "nullish (lookup [(''name'', JStr ''n1''), (''target'', JNull)] ''target'') \<and>
   prepareAnnotation (JObj [(''name'', JStr ''n1''), (''target'', JNull)]) =
     Inr (JObj [(''name'', JStr ''n1''), (''target'', JNull)])"
proof -
  have h: "nullish (lookup [(''name'', JStr ''n1''), (''target'', JNull)] ''target'')"
    by (simp add: lookup_def)
  show ?thesis
    using h prepareAnnotation_nullish_target [OF h] by (simp add: lookup_def)
qed

subsection \<open>The shape of the returned target\<close>




subsection \<open>Migration of a target without a query\<close>

text \<open>
  C4: for every input record whose \<^verbatim>\<open>target\<close> is truthy and whose \<^verbatim>\<open>target.query\<close> is
  falsy, migration is triggered; in the new target \<^verbatim>\<open>limit\<close>, \<^verbatim>\<open>matchAny\<close>, \<^verbatim>\<open>tags\<close> and
  \<^verbatim>\<open>type\<close> are what the old target held under those names, and \<^verbatim>\<open>query\<close>,
  \<^verbatim>\<open>tagsColumn\<close>, \<^verbatim>\<open>textColumn\<close>, \<^verbatim>\<open>timeEndColumn\<close>, \<^verbatim>\<open>titleColumn\<close> and \<^verbatim>\<open>name\<close> are read
  from the top-level record, \<^verbatim>\<open>""\<close> standing in for an absent one. The witness is
  Scenario C.
\<close>

theorem prepareAnnotation_migrates_from_target:
  assumes "truthy (lookup ps ''target'')"
    and "\<not> truthy (own_prop (lookup ps ''target'') ''query'')"
  shows "prepareAnnotation (JObj ps) =
    Inr (JObj (AList.update ''target''
      (JObj
        [(''query'', nullish_or (lookup ps ''query'') (JStr '''')),
         (''queryType'', JStr ''tags''),
         (''fromAnnotations'', JBool True),
         (''tagsColumn'', nullish_or (lookup ps ''tagsColumn'') (JStr '''')),
         (''textColumn'', nullish_or (lookup ps ''textColumn'') (JStr '''')),
         (''timeEndColumn'', nullish_or (lookup ps ''timeEndColumn'') (JStr '''')),
         (''titleColumn'', nullish_or (lookup ps ''titleColumn'') (JStr '''')),
         (''name'', nullish_or (lookup ps ''name'') (JStr '''')),
         (''limit'', own_prop (lookup ps ''target'') ''limit''),
         (''matchAny'', own_prop (lookup ps ''target'') ''matchAny''),
         (''tags'', own_prop (lookup ps ''target'') ''tags''),
         (''type'', own_prop (lookup ps ''target'') ''type'')])
      ps))"
  using assms
  by (simp add: prepareAnnotation_cond migrateLegacyAnnotation_truthy)

theorem prepareAnnotation_scenario_C_witness:
  "prepareAnnotation
     (JObj [(''name'', JStr ''n1''),
            (''target'', JObj [(''limit'', JNum (Finite 5)), (''matchAny'', JBool True),
                               (''tags'', JArr [JStr ''a'', JStr ''b''] []),
                               (''type'', JStr ''tags'')])]) =
   Inr (JObj [(''name'', JStr ''n1''),
              (''target'', JObj
                [(''query'', JStr ''''),
                 (''queryType'', JStr ''tags''),
                 (''fromAnnotations'', JBool True),
                 (''tagsColumn'', JStr ''''),
                 (''textColumn'', JStr ''''),
                 (''timeEndColumn'', JStr ''''),
                 (''titleColumn'', JStr ''''),
                 (''name'', JStr ''n1''),
                 (''limit'', JNum (Finite 5)),
                 (''matchAny'', JBool True),
                 (''tags'', JArr [JStr ''a'', JStr ''b''] []),
                 (''type'', JStr ''tags'')])])"
  using prepareAnnotation_migrates_from_target
    [of "[(''name'', JStr ''n1''),
          (''target'', JObj [(''limit'', JNum (Finite 5)), (''matchAny'', JBool True),
                             (''tags'', JArr [JStr ''a'', JStr ''b''] []),
                             (''type'', JStr ''tags'')])]"]
  by (simp add: lookup_def nullish_or_def)

subsection \<open>A target that is already current\<close>

text \<open>
  C5: for every input record whose \<^verbatim>\<open>target.query\<close> is truthy, \<^verbatim>\<open>prepareAnnotation\<close>
  returns the record unchanged, whatever else the target holds. The witness is Scenario B.
\<close>

theorem prepareAnnotation_current_unchanged:
  assumes "truthy (own_prop (lookup ps ''target'') ''query'')"
  shows "prepareAnnotation (JObj ps) = Inr (JObj ps)"
proof -
  from assms have "lookup ps ''target'' \<noteq> JUndefined"
    by auto
  then have "map_of ps ''target'' = Some (lookup ps ''target'')"
    by (auto simp add: lookup_def split: option.splits)
  then have "AList.update ''target'' (lookup ps ''target'') ps = ps"
    by (rule update_present)
  with assms show ?thesis
    by (simp add: prepareAnnotation_cond)
qed

theorem prepareAnnotation_scenario_B_witness:
  "truthy (own_prop (lookup [(''target'', JObj [(''query'', JStr ''host=$host'')])] ''target'') ''query'') \<and>
   prepareAnnotation (JObj [(''target'', JObj [(''query'', JStr ''host=$host'')])]) =
     Inr (JObj [(''target'', JObj [(''query'', JStr ''host=$host'')])])"
proof -
  have h: "truthy (own_prop (lookup [(''target'', JObj [(''query'', JStr ''host=$host'')])] ''target'') ''query'')"
    by (simp add: lookup_def)
  show ?thesis
    using h prepareAnnotation_current_unchanged [OF h] by simp
qed

subsection \<open>The two forced fields\<close>

text \<open>
  C6: whenever migration is triggered, the new target has \<^verbatim>\<open>queryType\<close> equal to
  \<^verbatim>\<open>"tags"\<close> and \<^verbatim>\<open>fromAnnotations\<close> equal to \<^verbatim>\<open>true\<close>, whatever the record and its old
  target held under those two names. In the witness both hold \<^verbatim>\<open>"raw"\<close> and \<^verbatim>\<open>false\<close>.
\<close>

theorem migration_forces_queryType_fromAnnotations:
  assumes "truthy (lookup ps ''target'')"
    and "\<not> truthy (own_prop (lookup ps ''target'') ''query'')"
  shows "\<exists>m. migrateLegacyAnnotation (JObj ps) = Inr m \<and>
     prepareAnnotation (JObj ps) = Inr (JObj (AList.update ''target'' m ps)) \<and>
     own_prop m ''queryType'' = JStr ''tags'' \<and>
     own_prop m ''fromAnnotations'' = JBool True"
  using assms
  by (simp add: prepareAnnotation_cond migrateLegacyAnnotation_truthy lookup_def)

theorem migration_forces_queryType_fromAnnotations_witness:
  "\<exists>m. migrateLegacyAnnotation
          (JObj [(''queryType'', JStr ''raw''), (''fromAnnotations'', JBool False),
                 (''target'', JObj [(''queryType'', JStr ''raw''), (''fromAnnotations'', JBool False)])])
        = Inr m \<and>
     prepareAnnotation
          (JObj [(''queryType'', JStr ''raw''), (''fromAnnotations'', JBool False),
                 (''target'', JObj [(''queryType'', JStr ''raw''), (''fromAnnotations'', JBool False)])])
        = Inr (JObj [(''queryType'', JStr ''raw''), (''fromAnnotations'', JBool False),
                     (''target'', m)]) \<and>
     own_prop m ''queryType'' = JStr ''tags'' \<and>
     own_prop m ''fromAnnotations'' = JBool True"
  using migration_forces_queryType_fromAnnotations
    [of "[(''queryType'', JStr ''raw''), (''fromAnnotations'', JBool False),
          (''target'', JObj [(''queryType'', JStr ''raw''), (''fromAnnotations'', JBool False)])]"]
  by (simp add: lookup_def)

subsection \<open>Only the target is assigned\<close>

text \<open>
  The assignment \<^verbatim>\<open>json.target = ...\<close> is the only write of \<^verbatim>\<open>prepareAnnotation\<close>: what it
  returns is the input after one assignment to \<^verbatim>\<open>target\<close>.
\<close>

lemma set_prop_frame:
  assumes "set_prop json k v = Inr r" and "k' \<noteq> k"
  shows "own_prop r k' = own_prop json k'"
  using assms by (cases json) (auto simp add: lookup_update_other)

lemma set_prop_same:
  assumes "set_prop json k v = Inr r"
  shows "own_prop r k = v"
  using assms by (cases json) (auto simp add: lookup_update_same)

lemma set_prop_again:
  assumes "set_prop json k v = Inr r"
  shows "set_prop r k w = set_prop json k w"
  using assms by (cases json) (auto simp add: update_twice)

lemma set_prop_defined:
  assumes "set_prop json k v = Inr r"
  shows "\<not> nullish r"
  using assms by (cases json) auto

lemma prepareAnnotation_assigns:
  assumes "prepareAnnotation json = Inr r"
  shows "\<exists>v. set_prop json ''target'' v = Inr r"
proof -
  from assms have nn: "\<not> nullish json"
    using prepareAnnotation_nullish [of json] by auto
  show ?thesis
  proof (cases "truthy (own_prop json ''target'') \<and>
      \<not> truthy (own_prop (own_prop json ''target'') ''query'')")
    case True
    with nn assms show ?thesis
      by (auto simp add: prepareAnnotation_migrates)
  next
    case False
    with nn assms show ?thesis
      by (auto simp add: prepareAnnotation_cond)
  qed
qed

text \<open>
  C7: \<^verbatim>\<open>prepareAnnotation\<close> returns the record it was given, changed only at \<^verbatim>\<open>target\<close>:
  the properties other than \<^verbatim>\<open>target\<close> are the same ones, in the same order and with the
  same values, so every top-level field \<^verbatim>\<open>k\<close> other than \<^verbatim>\<open>target\<close> reads as before,
  whether or not migration was triggered.
\<close>

theorem prepareAnnotation_frame:
  assumes "prepareAnnotation (JObj ps) = Inr r" and "k \<noteq> ''target''"
  shows "(\<exists>ps'. r = JObj ps' \<and>
            filter (\<lambda>p. fst p \<noteq> ''target'') ps' = filter (\<lambda>p. fst p \<noteq> ''target'') ps) \<and>
         own_prop r k = own_prop (JObj ps) k"
proof -
  from assms(1) obtain v where v: "set_prop (JObj ps) ''target'' v = Inr r"
    using prepareAnnotation_assigns by blast
  then have r: "r = JObj (AList.update ''target'' v ps)"
    by simp
  have "filter (\<lambda>p. fst p \<noteq> ''target'') (AList.update ''target'' v ps) =
        filter (\<lambda>p. fst p \<noteq> ''target'') ps"
    by (rule filter_update_other)
  with r have first: "\<exists>ps'. r = JObj ps' \<and>
      filter (\<lambda>p. fst p \<noteq> ''target'') ps' = filter (\<lambda>p. fst p \<noteq> ''target'') ps"
    by simp
  have second: "own_prop r k = own_prop (JObj ps) k"
    using v assms(2) by (rule set_prop_frame)
  from first second show ?thesis
    by (rule conjI)
qed

theorem prepareAnnotation_frame_witness:
  "prepareAnnotation
     (JObj [(''name'', JStr ''n1''), (''target'', JStr ''x''), (''enable'', JBool True)]) =
   Inr (JObj [(''name'', JStr ''n1''),
          (''target'', JObj
                [(''query'', JStr ''''),
                 (''queryType'', JStr ''tags''),
                 (''fromAnnotations'', JBool True),
                 (''tagsColumn'', JStr ''''),
                 (''textColumn'', JStr ''''),
                 (''timeEndColumn'', JStr ''''),
                 (''titleColumn'', JStr ''''),
                 (''name'', JStr ''n1''),
                 (''limit'', JUndefined),
                 (''matchAny'', JUndefined),
                 (''tags'', JUndefined),
                 (''type'', JUndefined)]),
          (''enable'', JBool True)]) \<and>
   ''enable'' \<noteq> ''target'' \<and>
   own_prop (JObj [(''name'', JStr ''n1''),
          (''target'', JObj
                [(''query'', JStr ''''),
                 (''queryType'', JStr ''tags''),
                 (''fromAnnotations'', JBool True),
                 (''tagsColumn'', JStr ''''),
                 (''textColumn'', JStr ''''),
                 (''timeEndColumn'', JStr ''''),
                 (''titleColumn'', JStr ''''),
                 (''name'', JStr ''n1''),
                 (''limit'', JUndefined),
                 (''matchAny'', JUndefined),
                 (''tags'', JUndefined),
                 (''type'', JUndefined)]),
          (''enable'', JBool True)]) ''enable'' =
   own_prop (JObj [(''name'', JStr ''n1''), (''target'', JStr ''x''), (''enable'', JBool True)])
     ''enable''"
proof -
  have run: "prepareAnnotation
     (JObj [(''name'', JStr ''n1''), (''target'', JStr ''x''), (''enable'', JBool True)]) =
   Inr (JObj [(''name'', JStr ''n1''),
          (''target'', JObj
                [(''query'', JStr ''''),
                 (''queryType'', JStr ''tags''),
                 (''fromAnnotations'', JBool True),
                 (''tagsColumn'', JStr ''''),
                 (''textColumn'', JStr ''''),
                 (''timeEndColumn'', JStr ''''),
                 (''titleColumn'', JStr ''''),
                 (''name'', JStr ''n1''),
                 (''limit'', JUndefined),
                 (''matchAny'', JUndefined),
                 (''tags'', JUndefined),
                 (''type'', JUndefined)]),
          (''enable'', JBool True)])"
    by (simp add: prepareAnnotation_migrates lookup_def nullish_or_def)
  have ne: "''enable'' \<noteq> ''target''"
    by simp
  have frame: "own_prop (JObj [(''name'', JStr ''n1''),
          (''target'', JObj
                [(''query'', JStr ''''),
                 (''queryType'', JStr ''tags''),
                 (''fromAnnotations'', JBool True),
                 (''tagsColumn'', JStr ''''),
                 (''textColumn'', JStr ''''),
                 (''timeEndColumn'', JStr ''''),
                 (''titleColumn'', JStr ''''),
                 (''name'', JStr ''n1''),
                 (''limit'', JUndefined),
                 (''matchAny'', JUndefined),
                 (''tags'', JUndefined),
                 (''type'', JUndefined)]),
          (''enable'', JBool True)]) ''enable'' =
   own_prop (JObj [(''name'', JStr ''n1''), (''target'', JStr ''x''), (''enable'', JBool True)])
     ''enable''"
    using prepareAnnotation_frame [OF run ne] by (rule conjunct2)
  show ?thesis
    by (intro conjI) (rule run ne frame)+
qed

subsection \<open>Applying the migration twice\<close>

text \<open>
  Whatever \<^verbatim>\<open>prepareAnnotation\<close> returns is returned again when it is applied to it. When
  the first pass migrated and left a falsy \<^verbatim>\<open>target.query\<close>, the second pass migrates
  again, reading the flat fields from the unchanged top level and the four target fields
  from the target the first pass built, which holds the old target's values.
\<close>

lemma prepareAnnotation_fixpoint:
  assumes "prepareAnnotation json = Inr r"
  shows "prepareAnnotation r = Inr r"
proof -
  from assms have nn: "\<not> nullish json"
    using prepareAnnotation_nullish [of json] by auto
  show ?thesis
  proof (cases "truthy (own_prop json ''target'') \<and>
      \<not> truthy (own_prop (own_prop json ''target'') ''query'')")
    case False
    with nn assms have set: "set_prop json ''target'' (own_prop json ''target'') = Inr r"
      by (simp add: prepareAnnotation_cond)
    have nr: "\<not> nullish r"
      using set by (rule set_prop_defined)
    have same: "own_prop r ''target'' = own_prop json ''target''"
      using set by (rule set_prop_same)
    have "prepareAnnotation r = set_prop r ''target'' (own_prop json ''target'')"
      using False nr same by (auto simp add: prepareAnnotation_cond)
    also have "\<dots> = set_prop json ''target'' (own_prop json ''target'')"
      using set by (rule set_prop_again)
    finally show ?thesis
      using set by simp
  next
    case True
    define m where "m = JObj
        [(''query'', nullish_or (own_prop json ''query'') (JStr '''')),
         (''queryType'', JStr ''tags''),
         (''fromAnnotations'', JBool True),
         (''tagsColumn'', nullish_or (own_prop json ''tagsColumn'') (JStr '''')),
         (''textColumn'', nullish_or (own_prop json ''textColumn'') (JStr '''')),
         (''timeEndColumn'', nullish_or (own_prop json ''timeEndColumn'') (JStr '''')),
         (''titleColumn'', nullish_or (own_prop json ''titleColumn'') (JStr '''')),
         (''name'', nullish_or (own_prop json ''name'') (JStr '''')),
         (''limit'', own_prop (own_prop json ''target'') ''limit''),
         (''matchAny'', own_prop (own_prop json ''target'') ''matchAny''),
         (''tags'', own_prop (own_prop json ''target'') ''tags''),
         (''type'', own_prop (own_prop json ''target'') ''type'')]"
    from True nn assms have set: "set_prop json ''target'' m = Inr r"
      by (simp add: prepareAnnotation_migrates m_def)
    have nr: "\<not> nullish r"
      using set by (rule set_prop_defined)
    have same: "own_prop r ''target'' = m"
      using set by (rule set_prop_same)
    have again: "set_prop r ''target'' m = Inr r"
      using set set_prop_again [OF set, of m] by simp
    have tm: "truthy m"
      by (simp add: m_def)
    show ?thesis
    proof (cases "truthy (own_prop m ''query'')")
      case True
      then have "prepareAnnotation r = set_prop r ''target'' m"
        using nr same by (simp add: prepareAnnotation_cond)
      with again show ?thesis
        by simp
    next
      case False
      have flat: "own_prop r ''query'' = own_prop json ''query''"
        "own_prop r ''tagsColumn'' = own_prop json ''tagsColumn''"
        "own_prop r ''textColumn'' = own_prop json ''textColumn''"
        "own_prop r ''timeEndColumn'' = own_prop json ''timeEndColumn''"
        "own_prop r ''titleColumn'' = own_prop json ''titleColumn''"
        "own_prop r ''name'' = own_prop json ''name''"
        by (rule set_prop_frame [OF set], simp)+
      have sub: "own_prop m ''limit'' = own_prop (own_prop json ''target'') ''limit''"
        "own_prop m ''matchAny'' = own_prop (own_prop json ''target'') ''matchAny''"
        "own_prop m ''tags'' = own_prop (own_prop json ''target'') ''tags''"
        "own_prop m ''type'' = own_prop (own_prop json ''target'') ''type''"
        by (simp_all add: m_def lookup_def)
      have "prepareAnnotation r = set_prop r ''target'' m"
        using prepareAnnotation_migrates [of r] nr tm False
        by (simp only: same flat sub m_def [symmetric] not_False_eq_True simp_thms)
      with again show ?thesis
        by simp
    qed
  qed
qed

text \<open>
  C8, as the specification states it: on a migrated record whose \<^verbatim>\<open>target.query\<close> is
  \<^verbatim>\<open>""\<close> a second application re-triggers migration, so that applying
  \<^verbatim>\<open>prepareAnnotation\<close> twice is not the same as applying it once. For
  \<^verbatim>\<open>{ target: { limit: 5 } }\<close> the first pass leaves \<^verbatim>\<open>target.query = ""\<close>, and the second
  pass returns the very same record.
\<close>

theorem prepareAnnotation_second_pass_counterexample:
  "prepareAnnotation (JObj [(''target'', JObj [(''limit'', JNum (Finite 5))])]) =
     Inr (JObj [(''target'', JObj
                [(''query'', JStr ''''),
                 (''queryType'', JStr ''tags''),
                 (''fromAnnotations'', JBool True),
                 (''tagsColumn'', JStr ''''),
                 (''textColumn'', JStr ''''),
                 (''timeEndColumn'', JStr ''''),
                 (''titleColumn'', JStr ''''),
                 (''name'', JStr ''''),
                 (''limit'', JNum (Finite 5)),
                 (''matchAny'', JUndefined),
                 (''tags'', JUndefined),
                 (''type'', JUndefined)])]) \<and>
   prepareAnnotation (JObj [(''target'', JObj
                [(''query'', JStr ''''),
                 (''queryType'', JStr ''tags''),
                 (''fromAnnotations'', JBool True),
                 (''tagsColumn'', JStr ''''),
                 (''textColumn'', JStr ''''),
                 (''timeEndColumn'', JStr ''''),
                 (''titleColumn'', JStr ''''),
                 (''name'', JStr ''''),
                 (''limit'', JNum (Finite 5)),
                 (''matchAny'', JUndefined),
                 (''tags'', JUndefined),
                 (''type'', JUndefined)])]) =
     Inr (JObj [(''target'', JObj
                [(''query'', JStr ''''),
                 (''queryType'', JStr ''tags''),
                 (''fromAnnotations'', JBool True),
                 (''tagsColumn'', JStr ''''),
                 (''textColumn'', JStr ''''),
                 (''timeEndColumn'', JStr ''''),
                 (''titleColumn'', JStr ''''),
                 (''name'', JStr ''''),
                 (''limit'', JNum (Finite 5)),
                 (''matchAny'', JUndefined),
                 (''tags'', JUndefined),
                 (''type'', JUndefined)])])"
  by (simp add: prepareAnnotation_migrates lookup_def nullish_or_def)

text \<open>
  C8, amended: on a migrated record whose \<^verbatim>\<open>target.query\<close> is falsy a second application
  does take the migration branch again, but the target it builds is equal, field by
  field, to the one already there. For every input, applying \<^verbatim>\<open>prepareAnnotation\<close> to its
  own result returns that result: as values, applying it twice is the same as applying it
  once.
\<close>

theorem prepareAnnotation_twice_same:
  assumes "prepareAnnotation json = Inr r"
  shows "prepareAnnotation r = Inr r \<and>
     (truthy (own_prop r ''target'') \<and> \<not> truthy (own_prop (own_prop r ''target'') ''query'') \<longrightarrow>
        bind_res (migrateLegacyAnnotation r) (set_prop r ''target'') = Inr r)"
proof -
  have again: "prepareAnnotation r = Inr r"
    using assms by (rule prepareAnnotation_fixpoint)
  then have nr: "\<not> nullish r"
    using prepareAnnotation_nullish [of r] by auto
  from again nr show ?thesis
    by (auto simp add: prepareAnnotation_cond split: if_splits)
qed

theorem prepareAnnotation_twice_same_witness:
  "prepareAnnotation (JObj [(''target'', JObj [(''type'', JStr ''tags'')])]) =
     Inr (JObj [(''target'', JObj
                [(''query'', JStr ''''),
                 (''queryType'', JStr ''tags''),
                 (''fromAnnotations'', JBool True),
                 (''tagsColumn'', JStr ''''),
                 (''textColumn'', JStr ''''),
                 (''timeEndColumn'', JStr ''''),
                 (''titleColumn'', JStr ''''),
                 (''name'', JStr ''''),
                 (''limit'', JUndefined),
                 (''matchAny'', JUndefined),
                 (''tags'', JUndefined),
                 (''type'', JStr ''tags'')])]) \<and>
   bind_res
     (migrateLegacyAnnotation (JObj [(''target'', JObj
                [(''query'', JStr ''''),
                 (''queryType'', JStr ''tags''),
                 (''fromAnnotations'', JBool True),
                 (''tagsColumn'', JStr ''''),
                 (''textColumn'', JStr ''''),
                 (''timeEndColumn'', JStr ''''),
                 (''titleColumn'', JStr ''''),
                 (''name'', JStr ''''),
                 (''limit'', JUndefined),
                 (''matchAny'', JUndefined),
                 (''tags'', JUndefined),
                 (''type'', JStr ''tags'')])]))
     (set_prop (JObj [(''target'', JObj
                [(''query'', JStr ''''),
                 (''queryType'', JStr ''tags''),
                 (''fromAnnotations'', JBool True),
                 (''tagsColumn'', JStr ''''),
                 (''textColumn'', JStr ''''),
                 (''timeEndColumn'', JStr ''''),
                 (''titleColumn'', JStr ''''),
                 (''name'', JStr ''''),
                 (''limit'', JUndefined),
                 (''matchAny'', JUndefined),
                 (''tags'', JUndefined),
                 (''type'', JStr ''tags'')])]) ''target'') =
     Inr (JObj [(''target'', JObj
                [(''query'', JStr ''''),
                 (''queryType'', JStr ''tags''),
                 (''fromAnnotations'', JBool True),
                 (''tagsColumn'', JStr ''''),
                 (''textColumn'', JStr ''''),
                 (''timeEndColumn'', JStr ''''),
                 (''titleColumn'', JStr ''''),
                 (''name'', JStr ''''),
                 (''limit'', JUndefined),
                 (''matchAny'', JUndefined),
                 (''tags'', JUndefined),
                 (''type'', JStr ''tags'')])])"
proof -
  have run: "prepareAnnotation (JObj [(''target'', JObj [(''type'', JStr ''tags'')])]) =
     Inr (JObj [(''target'', JObj
                [(''query'', JStr ''''),
                 (''queryType'', JStr ''tags''),
                 (''fromAnnotations'', JBool True),
                 (''tagsColumn'', JStr ''''),
                 (''textColumn'', JStr ''''),
                 (''timeEndColumn'', JStr ''''),
                 (''titleColumn'', JStr ''''),
                 (''name'', JStr ''''),
                 (''limit'', JUndefined),
                 (''matchAny'', JUndefined),
                 (''tags'', JUndefined),
                 (''type'', JStr ''tags'')])])"
    by (simp add: prepareAnnotation_migrates lookup_def nullish_or_def)
  show ?thesis
    using run prepareAnnotation_twice_same [OF run] by (simp add: lookup_def)
qed

subsection \<open>Totality on objects, and what is defaulted\<close>

text \<open>
  On every plain object and every array \<^verbatim>\<open>prepareAnnotation\<close> returns normally: the reads
  \<^verbatim>\<open>json.target.limit\<close> and the like cannot throw, because they are guarded by the
  truthiness of \<^verbatim>\<open>json.target\<close>. The result type is not trivially \<open>Inr\<close>: on a primitive
  the assignment throws.
\<close>

lemma prepareAnnotation_total:
  "(\<exists>ps'. prepareAnnotation (JObj ps) = Inr (JObj ps')) \<and>
   (\<exists>ps'. prepareAnnotation (JArr xs ps) = Inr (JArr xs ps'))"
  by (simp add: prepareAnnotation_cond migrateLegacyAnnotation_truthy)

lemma prepareAnnotation_primitive_throws:
  "prepareAnnotation (JStr ''abc'') = Inl TypeError"
  by (simp add: prepareAnnotation_cond)




subsection \<open>Target fields that the old target lacks\<close>

text \<open>
  C10: the four target fields are defaulted according to the truthiness of
  \<^verbatim>\<open>record.target\<close> as a whole, never field by field. For every record whose \<^verbatim>\<open>target\<close>
  is truthy, whose \<^verbatim>\<open>target.query\<close> is falsy, and whose \<^verbatim>\<open>target\<close> lacks the field \<^verbatim>\<open>k\<close>,
  one of \<^verbatim>\<open>limit\<close>, \<^verbatim>\<open>matchAny\<close>, \<^verbatim>\<open>tags\<close>, \<^verbatim>\<open>type\<close>, migration is triggered: the returned
  record is the input with \<^verbatim>\<open>target\<close> replaced by the object that
  \<^verbatim>\<open>migrateLegacyAnnotation\<close> builds, an object of the twelve fields. In it the field
  \<^verbatim>\<open>k\<close> is present and holds \<^verbatim>\<open>undefined\<close>, which is none of the defaults \<^verbatim>\<open>0\<close>, \<^verbatim>\<open>false\<close>,
  \<^verbatim>\<open>[]\<close> and \<^verbatim>\<open>""\<close>, and each of the four fields holds what the old target reads under its
  name. The old target may be a truthy value that is not an object, such as the string
  \<^verbatim>\<open>"abc"\<close>.
\<close>

theorem prepareAnnotation_missing_subfield_undefined:
  assumes "truthy (lookup ps ''target'')"
    and "\<not> truthy (own_prop (lookup ps ''target'') ''query'')"
    and "k \<in> {''limit'', ''matchAny'', ''tags'', ''type''}"
    and "own_prop (lookup ps ''target'') k = JUndefined"
  shows "\<exists>fs. migrateLegacyAnnotation (JObj ps) = Inr (JObj fs) \<and>
     prepareAnnotation (JObj ps) = Inr (JObj (AList.update ''target'' (JObj fs) ps)) \<and>
     map fst fs =
       [''query'', ''queryType'', ''fromAnnotations'', ''tagsColumn'', ''textColumn'',
        ''timeEndColumn'', ''titleColumn'', ''name'', ''limit'', ''matchAny'', ''tags'', ''type''] \<and>
     map_of fs k = Some JUndefined \<and>
     lookup fs k \<notin> {JNum (Finite 0), JBool False, JArr [] [], JStr ''''} \<and>
     (\<forall>k' \<in> {''limit'', ''matchAny'', ''tags'', ''type''}.
        lookup fs k' = own_prop (lookup ps ''target'') k')"
proof -
  define fs where "fs =
        [(''query'', nullish_or (lookup ps ''query'') (JStr '''')),
         (''queryType'', JStr ''tags''),
         (''fromAnnotations'', JBool True),
         (''tagsColumn'', nullish_or (lookup ps ''tagsColumn'') (JStr '''')),
         (''textColumn'', nullish_or (lookup ps ''textColumn'') (JStr '''')),
         (''timeEndColumn'', nullish_or (lookup ps ''timeEndColumn'') (JStr '''')),
         (''titleColumn'', nullish_or (lookup ps ''titleColumn'') (JStr '''')),
         (''name'', nullish_or (lookup ps ''name'') (JStr '''')),
         (''limit'', own_prop (lookup ps ''target'') ''limit''),
         (''matchAny'', own_prop (lookup ps ''target'') ''matchAny''),
         (''tags'', own_prop (lookup ps ''target'') ''tags''),
         (''type'', own_prop (lookup ps ''target'') ''type'')]"
  have built: "migrateLegacyAnnotation (JObj ps) = Inr (JObj fs)"
    using assms(1) migrateLegacyAnnotation_truthy [of "JObj ps"] by (simp add: fs_def)
  have run: "prepareAnnotation (JObj ps) = Inr (JObj (AList.update ''target'' (JObj fs) ps))"
    using assms(1,2) prepareAnnotation_migrates [of "JObj ps"] by (simp add: fs_def)
  have keys: "map fst fs =
       [''query'', ''queryType'', ''fromAnnotations'', ''tagsColumn'', ''textColumn'',
        ''timeEndColumn'', ''titleColumn'', ''name'', ''limit'', ''matchAny'', ''tags'', ''type'']"
    by (simp add: fs_def)
  have sub: "\<forall>k' \<in> {''limit'', ''matchAny'', ''tags'', ''type''}.
      lookup fs k' = own_prop (lookup ps ''target'') k'"
    by (simp add: fs_def lookup_def)
  have present: "map_of fs k = Some (own_prop (lookup ps ''target'') k)"
    using assms(3) by (auto simp add: fs_def)
  then have carried: "map_of fs k = Some JUndefined"
    using assms(4) by simp
  then have nodefault: "lookup fs k \<notin> {JNum (Finite 0), JBool False, JArr [] [], JStr ''''}"
    by (simp add: lookup_def)
  show ?thesis
    by (intro exI [of _ fs] conjI) (rule built run keys carried nodefault sub)+
qed

theorem prepareAnnotation_missing_subfield_undefined_witness:
  "truthy (lookup [(''target'', JStr ''abc'')] ''target'') \<and>
   \<not> truthy (own_prop (lookup [(''target'', JStr ''abc'')] ''target'') ''query'') \<and>
   ''limit'' \<in> {''limit'', ''matchAny'', ''tags'', ''type''} \<and>
   own_prop (lookup [(''target'', JStr ''abc'')] ''target'') ''limit'' = JUndefined \<and>
   (\<exists>fs. migrateLegacyAnnotation (JObj [(''target'', JStr ''abc'')]) = Inr (JObj fs) \<and>
     prepareAnnotation (JObj [(''target'', JStr ''abc'')]) =
       Inr (JObj (AList.update ''target'' (JObj fs) [(''target'', JStr ''abc'')])) \<and>
     map fst fs =
       [''query'', ''queryType'', ''fromAnnotations'', ''tagsColumn'', ''textColumn'',
        ''timeEndColumn'', ''titleColumn'', ''name'', ''limit'', ''matchAny'', ''tags'', ''type''] \<and>
     map_of fs ''limit'' = Some JUndefined \<and>
     lookup fs ''limit'' \<notin> {JNum (Finite 0), JBool False, JArr [] [], JStr ''''} \<and>
     (\<forall>k' \<in> {''limit'', ''matchAny'', ''tags'', ''type''}.
        lookup fs k' = own_prop (lookup [(''target'', JStr ''abc'')] ''target'') k'))"
proof -
  have h1: "truthy (lookup [(''target'', JStr ''abc'')] ''target'')"
    by (simp add: lookup_def)
  have h2: "\<not> truthy (own_prop (lookup [(''target'', JStr ''abc'')] ''target'') ''query'')"
    by (simp add: lookup_def)
  have h3: "''limit'' \<in> {''limit'', ''matchAny'', ''tags'', ''type''}"
    by simp
  have h4: "own_prop (lookup [(''target'', JStr ''abc'')] ''target'') ''limit'' = JUndefined"
    by (simp add: lookup_def)
  show ?thesis
    by (intro conjI) (rule h1 h2 h3 h4 prepareAnnotation_missing_subfield_undefined [OF h1 h2 h3 h4])+
qed

end
